theory Spec2Isabelle
  imports Complex_Main
begin

section \<open>Numbers\<close>

text \<open>
  The program computes with JavaScript numbers. They are modelled in exact arithmetic:
  a finite number is a \<^typ>\<open>real\<close>, and a \<open>number\<close> is a real or \<open>NaN\<close>, written
  \<open>None\<close>. Rounding of IEEE doubles is not modelled. The parameters of a particle and
  the frame time are finite; the only operation of the program that leaves the finite
  numbers on finite operands is the remainder by zero, which is \<open>NaN\<close>, and every
  arithmetic operation applied afterwards keeps \<open>NaN\<close> (\<open>map_option\<close>).

  One property of the program is decided by rounding: whether the taper of the wave
  falls strictly. For it the shrink factor is given a second time, in section
  \<open>The shrink factor in binary64\<close>, with every operation rounded as the machine
  rounds it.
\<close>

type_synonym number = "real option"

text \<open>
  The integer quotient of the \<open>%\<close> operator: the mathematical quotient rounded
  towards zero.
\<close>

definition trunc :: "real \<Rightarrow> int" where
  "trunc r = (if 0 \<le> r then \<lfloor>r\<rfloor> else \<lceil>r\<rceil>)"

text \<open>
  \<open>n % d\<close> on finite operands: \<open>NaN\<close> when the divisor is zero, otherwise
  \<open>n - d * q\<close> with \<open>q\<close> the truncated quotient, so the result has the sign of the
  dividend.
\<close>

definition js_rem :: "real \<Rightarrow> real \<Rightarrow> number" where
  "js_rem n d = (if d = 0 then None else Some (n - d * of_int (trunc (n / d))))"

section \<open>Data model\<close>

text \<open>\<open>Vector3\<close> and \<open>Object3D\<close> of three.js, as far as the program touches them.\<close>

record vector3 =
  vx :: number
  vy :: number
  vz :: number

definition vset :: "number \<Rightarrow> number \<Rightarrow> number \<Rightarrow> vector3 \<Rightarrow> vector3" where
  "vset a b c v = v\<lparr>vx := a, vy := b, vz := c\<rparr>"

record object3D =
  position :: vector3
  scale :: vector3

record particle =
  duration :: real
  amplitude :: real
  offsetY :: real
  arc :: real
  startTime :: real
  z :: real
  geometry :: object3D

definition SPEED :: real where
  "SPEED = 20000"

section \<open>Particle factory\<close>

text \<open>
  The outcomes of the random source and of the clock that one call of
  \<open>createParticle\<close> consumes: \<open>u\<close> is the value of \<open>Math.random()\<close>, a number in
  \<open>[0, 1)\<close>; \<open>now\<close> is the value of \<open>performance.now()\<close>; the other fields are the
  standard normal deviates behind the six calls of \<open>randomNormal\<close>.
\<close>

record draws =
  nScale :: real
  nDuration :: real
  nAmplitude :: real
  nOffsetY :: real
  nArc :: real
  nZ :: real
  u :: real
  now :: real

text \<open>
  Modelled from the spec: \<open>randomNormal\<close> is the package \<open>random-normal\<close>, which is not
  part of the sources; it samples a normal distribution with the given mean and
  deviation, that is, it scales a standard normal deviate \<open>n\<close> by the deviation and
  shifts it by the mean.
\<close>

definition randomNormal :: "real \<Rightarrow> real \<Rightarrow> real \<Rightarrow> real" where
  "randomNormal mean dev n = dev * n + mean"

definition rand :: "real \<Rightarrow> real \<Rightarrow> real \<Rightarrow> real" where
  "rand low high r = r * (high - low) + low"

text \<open>
  A new mesh sits at the origin with unit scale. Registration of the mesh with the
  scene graph belongs to the rendering library and is not modelled.
\<close>

definition Mesh :: object3D where
  "Mesh = \<lparr>position = \<lparr>vx = Some 0, vy = Some 0, vz = Some 0\<rparr>,
           scale = \<lparr>vx = Some 1, vy = Some 1, vz = Some 1\<rparr>\<rparr>"

definition createParticle :: "draws \<Rightarrow> particle" where
  "createParticle d =
     (let scale' = randomNormal 0.7 (2 / 5) (nScale d);
          circle = Mesh\<lparr>scale := vset (Some scale') (Some scale') (Some scale') (scale Mesh)\<rparr>
      in \<lparr>duration = randomNormal SPEED (SPEED / 10) (nDuration d),
          amplitude = randomNormal 25 1 (nAmplitude d),
          offsetY = randomNormal 0 12 (nOffsetY d),
          arc = randomNormal (pi * 2) 0.1 (nArc d),
          startTime = now d - rand 0 SPEED (u d),
          z = randomNormal 0 8 (nZ d),
          geometry = circle\<rparr>)"

section \<open>Kinematic evaluator\<close>

text \<open>The remainder \<open>(time - particle.startTime) % particle.duration\<close>.\<close>

definition elapsed :: "particle \<Rightarrow> real \<Rightarrow> number" where
  "elapsed p time = js_rem (time - startTime p) (duration p)"

text \<open>
  \<open>1 - elapsed / particle.duration\<close>. The division is by a duration that is not zero:
  for a zero duration the remainder is already \<open>NaN\<close>, and so is the progress.
\<close>

definition progress :: "particle \<Rightarrow> real \<Rightarrow> number" where
  "progress p time = map_option (\<lambda>e. 1 - e / duration p) (elapsed p time)"

definition xCoord :: "real \<Rightarrow> real" where
  "xCoord pr = pr * 300 - 150"

definition maxDistance :: real where
  "maxDistance = 90"

definition shrinkFactor :: "real \<Rightarrow> real" where
  "shrinkFactor x = (let distanceFromCenter = \<bar>x\<bar> in 1 - (distanceFromCenter / maxDistance) ^ 2)"

definition yCoord :: "particle \<Rightarrow> real \<Rightarrow> real" where
  "yCoord p pr =
     (let x = xCoord pr;
          amplitude' = amplitude p * shrinkFactor x;
          offsetY' = offsetY p * shrinkFactor x
      in - sin (pr * arc p) * amplitude' + offsetY')"

definition moveParticle :: "particle \<Rightarrow> real \<Rightarrow> particle" where
  "moveParticle p time =
     (let pr = progress p time;
          x = map_option xCoord pr;
          y = map_option (yCoord p) pr
      in p\<lparr>geometry := (geometry p)\<lparr>position := vset x y (Some (z p)) (position (geometry p))\<rparr>\<rparr>)"

section \<open>The shrink factor in binary64\<close>

text \<open>
  A binary64 number has 53 significant bits and a binary exponent from \<open>-1022\<close> to 1023.
  An operation yields the binary64 number nearest to the exact result; of two equally
  near, the one with the even significand.
\<close>

definition roundTiesToEven :: "real \<Rightarrow> int" where
  "roundTiesToEven r =
     (let f = \<lfloor>r\<rfloor> in
      if r - of_int f < 1 / 2 then f
      else if 1 / 2 < r - of_int f then f + 1
      else if even f then f else f + 1)"

text \<open>
  The distance between neighbouring binary64 numbers of the magnitude of \<open>v\<close>: that of
  the last of the 53 bits, and \<open>2\<^sup>-\<^sup>1\<^sup>0\<^sup>7\<^sup>4\<close> for all magnitudes below the normal range.
\<close>

definition quantum :: "real \<Rightarrow> real" where
  "quantum v = 2 powi (max \<lfloor>log 2 \<bar>v\<bar>\<rfloor> (- 1022) - 52)"

text \<open>
  The binary64 result of an operation whose exact result is \<open>v\<close>; \<open>None\<close> when the
  rounded magnitude is beyond the largest binary64 number, where the machine yields an
  infinity.
\<close>

definition fl :: "real \<Rightarrow> real option" where
  "fl v =
     (if v = 0 then Some 0
      else let w = of_int (roundTiesToEven (v / quantum v)) * quantum v
           in if \<bar>w\<bar> < 2 ^ 1024 then Some w else None)"


section \<open>The remainder operator\<close>

lemma trunc_of_int: "trunc (of_int k) = k"
  by (simp add: trunc_def)

lemma floor_mult_le:
  assumes "0 < (d::real)"
  shows "d * of_int \<lfloor>n / d\<rfloor> \<le> n"
proof -
  have "d * of_int \<lfloor>n / d\<rfloor> \<le> d * (n / d)"
    using assms by (intro mult_left_mono of_int_floor_le) simp
  then show ?thesis using assms by simp
qed

lemma floor_mult_gt:
  assumes "0 < (d::real)"
  shows "n < d * (of_int \<lfloor>n / d\<rfloor> + 1)"
proof -
  have "n / d < of_int \<lfloor>n / d\<rfloor> + 1" by linarith
  then have "d * (n / d) < d * (of_int \<lfloor>n / d\<rfloor> + 1)"
    using assms by (rule mult_strict_left_mono)
  then show ?thesis using assms by simp
qed

lemma ceiling_mult_ge:
  assumes "0 < (d::real)"
  shows "n \<le> d * of_int \<lceil>n / d\<rceil>"
proof -
  have "d * (n / d) \<le> d * of_int \<lceil>n / d\<rceil>"
    using assms by (intro mult_left_mono le_of_int_ceiling) simp
  then show ?thesis using assms by simp
qed

lemma ceiling_mult_lt:
  assumes "0 < (d::real)"
  shows "d * (of_int \<lceil>n / d\<rceil> - 1) < n"
proof -
  have "of_int \<lceil>n / d\<rceil> - 1 < n / d" by linarith
  then have "d * (of_int \<lceil>n / d\<rceil> - 1) < d * (n / d)"
    using assms by (rule mult_strict_left_mono)
  then show ?thesis using assms by simp
qed

text \<open>A non-negative dividend and a positive divisor: the remainder is in \<open>[0, d)\<close>.\<close>

lemma js_rem_nonneg:
  assumes "0 < d" "0 \<le> n"
  shows "\<exists>r. js_rem n d = Some r \<and> 0 \<le> r \<and> r < d"
proof -
  have q: "trunc (n / d) = \<lfloor>n / d\<rfloor>" using assms by (simp add: trunc_def)
  have v: "js_rem n d = Some (n - d * of_int \<lfloor>n / d\<rfloor>)"
    using assms q by (simp add: js_rem_def)
  have "0 \<le> n - d * of_int \<lfloor>n / d\<rfloor>" "n - d * of_int \<lfloor>n / d\<rfloor> < d"
    using floor_mult_le [OF assms(1), of n] floor_mult_gt [OF assms(1), of n]
    by (simp_all add: algebra_simps)
  with v show ?thesis by blast
qed

text \<open>A negative dividend and a positive divisor: the remainder is in \<open>(- d, 0]\<close>.\<close>

lemma js_rem_neg:
  assumes "0 < d" "n < 0"
  shows "\<exists>r. js_rem n d = Some r \<and> - d < r \<and> r \<le> 0"
proof -
  have nd: "n / d < 0" using assms by (simp add: divide_neg_pos)
  have q: "trunc (n / d) = \<lceil>n / d\<rceil>" using nd by (simp add: trunc_def)
  have v: "js_rem n d = Some (n - d * of_int \<lceil>n / d\<rceil>)"
    using assms q by (simp add: js_rem_def)
  have "- d < n - d * of_int \<lceil>n / d\<rceil>" "n - d * of_int \<lceil>n / d\<rceil> \<le> 0"
    using ceiling_mult_ge [OF assms(1), of n] ceiling_mult_lt [OF assms(1), of n]
    by (simp_all add: algebra_simps)
  with v show ?thesis by blast
qed

text \<open>A non-negative dividend and a negative divisor: the remainder is not negative.\<close>

lemma js_rem_nonneg_negdiv:
  assumes "d < 0" "0 \<le> n"
  shows "\<exists>r. js_rem n d = Some r \<and> 0 \<le> r"
proof (cases "n = 0")
  case True
  then show ?thesis using assms by (simp add: js_rem_def trunc_def)
next
  case False
  then have "n / d < 0" using assms by (simp add: divide_pos_neg)
  then have q: "trunc (n / d) = \<lceil>n / d\<rceil>" by (simp add: trunc_def)
  have "0 < - d" using assms by simp
  from floor_mult_le [OF this, of n]
  have "(- d) * of_int \<lfloor>n / (- d)\<rfloor> \<le> n" .
  moreover have "\<lfloor>n / (- d)\<rfloor> = - \<lceil>n / d\<rceil>" by (simp add: ceiling_def)
  ultimately have "0 \<le> n - d * of_int \<lceil>n / d\<rceil>" by simp
  then show ?thesis using assms q by (simp add: js_rem_def)
qed

lemma js_rem_shift_nonneg:
  assumes "0 < d" "0 \<le> n"
  shows "js_rem (n + d) d = js_rem n d"
proof -
  have "(n + d) / d = n / d + 1" using assms by (simp add: add_divide_distrib)
  moreover have "0 \<le> n / d" using assms by simp
  ultimately have "trunc ((n + d) / d) = trunc (n / d) + 1" by (simp add: trunc_def)
  then show ?thesis using assms by (simp add: js_rem_def algebra_simps)
qed

lemma js_rem_shift_neg:
  assumes "0 < d" "n + d \<le> 0"
  shows "js_rem (n + d) d = js_rem n d"
proof -
  have e: "(n + d) / d = n / d + 1" using assms by (simp add: add_divide_distrib)
  have "(n + d) / d \<le> 0" using assms by (simp add: divide_le_0_iff)
  then have le: "n / d + 1 \<le> 0" using e by simp
  have "trunc (n / d + 1) = trunc (n / d) + 1"
  proof (cases "n / d + 1 = 0")
    case True
    then have "n / d = of_int (- 1)" by simp
    then show ?thesis using trunc_of_int [of "- 1"] trunc_of_int [of 0] by simp
  next
    case False
    then have "n / d + 1 < 0" using le by linarith
    then show ?thesis by (simp add: trunc_def)
  qed
  then show ?thesis using assms e by (simp add: js_rem_def algebra_simps)
qed

text \<open>The remainders of the worked examples.\<close>

lemma js_rem_0_1000: "js_rem 0 1000 = Some 0"
  by (simp add: js_rem_def trunc_def)

lemma js_rem_500_1000: "js_rem 500 1000 = Some 500"
  by (simp add: js_rem_def trunc_def)

lemma js_rem_neg500_1000: "js_rem (- 500) 1000 = Some (- 500)"
  by (simp add: js_rem_def trunc_def ceiling_eq_iff)

section \<open>The position written by the evaluator\<close>

lemma moveParticle_vx:
  "vx (position (geometry (moveParticle p time))) = map_option xCoord (progress p time)"
  by (simp add: moveParticle_def vset_def Let_def)

lemma moveParticle_vy:
  "vy (position (geometry (moveParticle p time))) = map_option (yCoord p) (progress p time)"
  by (simp add: moveParticle_def vset_def Let_def)

lemma moveParticle_vz:
  "vz (position (geometry (moveParticle p time))) = Some (z p)"
  by (simp add: moveParticle_def vset_def Let_def)

section \<open>Rounding to binary64\<close>

lemma floor_log2_binade:
  assumes "2 powi e \<le> v" and "v < 2 powi (e + 1)"
  shows "\<lfloor>log 2 v\<rfloor> = e"
proof -
  have "(0::real) < 2 powi e" by simp
  then have pos: "0 < v" using assms(1) by linarith
  have p: "2 powr (of_int k) = (2::real) powi k" for k
    by (simp add: powr_real_of_int')
  have "2 powr (of_int e) \<le> v" using assms(1) by (simp only: p)
  moreover have "v < 2 powr (of_int (e + 1))" using assms(2) by (simp only: p)
  then have "v < 2 powr (of_int e + 1)" by simp
  ultimately show ?thesis using floor_log_eq_powr_iff [OF pos, of 2 e] by simp
qed


lemma fl_eval:
  assumes "v \<noteq> 0" and "quantum v = q" and "roundTiesToEven (v / q) = m"
    and "\<bar>of_int m * q\<bar> < 2 ^ 1024"
  shows "fl v = Some (of_int m * q)"
  using assms by (simp add: fl_def Let_def)



text \<open>
  The rounding on known values: one tenth is the binary64 number
  \<open>0x1.999999999999ap-4\<close>, and \<open>2\<^sup>5\<^sup>3 + 1\<close>, half way between two binary64 numbers,
  goes to the even one.
\<close>

lemma fl_tenth: "fl (1 / 10) = Some (3602879701896397 / 2 ^ 55)"
proof -
  have "\<lfloor>log 2 (1 / 10 :: real)\<rfloor> = - 4"
    by (rule floor_log2_binade) (simp_all add: power_int_minus)
  then have q: "quantum (1 / 10) = 2 powi (- 56)" by (simp add: quantum_def)
  have v: "(1 / 10) / 2 powi (- 56) = (2 ^ 56 / 10 :: real)"
    by (simp add: power_int_minus)
  have f: "\<lfloor>2 ^ 56 / 10 :: real\<rfloor> = 7205759403792793" by (simp add: floor_eq_iff)
  have r: "roundTiesToEven ((1 / 10) / 2 powi (- 56)) = 7205759403792794"
    unfolding v roundTiesToEven_def Let_def f by simp
  have "fl (1 / 10) = Some (of_int 7205759403792794 * 2 powi (- 56))"
    by (rule fl_eval [OF _ q r]) (simp_all add: power_int_minus)
  then show ?thesis by (simp add: power_int_minus)
qed

lemma fl_tie_to_even: "fl (2 ^ 53 + 1) = Some (2 ^ 53)"
proof -
  have "\<lfloor>log 2 (2 ^ 53 + 1 :: real)\<rfloor> = 53"
    by (rule floor_log2_binade) simp_all
  then have q: "quantum (2 ^ 53 + 1) = 2" by (simp add: quantum_def)
  have f: "\<lfloor>(2 ^ 53 + 1) / 2 :: real\<rfloor> = 2 ^ 52" by (simp add: floor_eq_iff)
  have r: "roundTiesToEven ((2 ^ 53 + 1) / 2) = 2 ^ 52"
    unfolding roundTiesToEven_def Let_def f by simp
  have "fl (2 ^ 53 + 1) = Some (of_int (2 ^ 52) * 2)"
    by (rule fl_eval [OF _ q r]) simp_all
  then show ?thesis by simp
qed




section \<open>Claims\<close>

text \<open>
  C1. The claim: for every particle with \<open>duration > 0\<close> and every time before its
  \<open>startTime\<close>, the remainder computed by \<open>moveParticle\<close> is in \<open>[0, duration)\<close>.
  It fails: with duration 1000 and start time 0, the remainder at time \<open>-500\<close> is
  \<open>-500\<close>.
\<close>

theorem elapsed_before_start_counterexample:
  "elapsed \<lparr>duration = 1000, amplitude = 25, offsetY = 0, arc = 2 * pi, startTime = 0,
      z = 0, geometry = Mesh\<rparr> (- 500) = Some (- 500) \<and> \<not> (0 \<le> (- 500 :: real))"
  by (simp add: elapsed_def js_rem_neg500_1000)

text \<open>
  C1, as the code has it: for a particle with \<open>duration > 0\<close>, the remainder takes the
  sign of \<open>time - startTime\<close>. Before the start time it is in \<open>(- duration, 0]\<close>;
  from the start time on it is in \<open>[0, duration)\<close>.
\<close>

theorem elapsed_sign_of_dividend:
  assumes "0 < duration p"
  shows "(time - startTime p < 0 \<longrightarrow>
           (\<exists>r. elapsed p time = Some r \<and> - duration p < r \<and> r \<le> 0)) \<and>
         (0 \<le> time - startTime p \<longrightarrow>
           (\<exists>r. elapsed p time = Some r \<and> 0 \<le> r \<and> r < duration p))"
  unfolding elapsed_def using assms js_rem_neg js_rem_nonneg by blast

theorem elapsed_sign_of_dividend_witness:
  "(0 :: real) < 1000 \<and> (- 500 :: real) - 0 < 0 \<and> (0 :: real) \<le> 500 - 0 \<and>
   (\<exists>r. elapsed \<lparr>duration = 1000, amplitude = 25, offsetY = 0, arc = 2 * pi, startTime = 0,
        z = 0, geometry = Mesh\<rparr> (- 500) = Some r \<and> - 1000 < r \<and> r \<le> 0) \<and>
   (\<exists>r. elapsed \<lparr>duration = 1000, amplitude = 25, offsetY = 0, arc = 2 * pi, startTime = 0,
        z = 0, geometry = Mesh\<rparr> 500 = Some r \<and> 0 \<le> r \<and> r < 1000)"
  using elapsed_sign_of_dividend [of "\<lparr>duration = 1000, amplitude = 25, offsetY = 0,
      arc = 2 * pi, startTime = 0, z = 0, geometry = Mesh\<rparr>" "- 500"]
    elapsed_sign_of_dividend [of "\<lparr>duration = 1000, amplitude = 25, offsetY = 0,
      arc = 2 * pi, startTime = 0, z = 0, geometry = Mesh\<rparr>" 500]
  by simp

text \<open>
  C2. The claim: for every particle with \<open>duration > 0\<close> and every time, the position
  at \<open>time\<close> and at \<open>time + duration\<close> are equal. It fails when \<open>time\<close> is less than
  one period before the start time: with duration 1000 and start time 0, the x
  coordinate is 300 at time \<open>-500\<close> and 0 at time \<open>-500 + 1000\<close>.
\<close>

theorem moveParticle_period_counterexample:
  "vx (position (geometry (moveParticle \<lparr>duration = 1000, amplitude = 25, offsetY = 0,
      arc = 2 * pi, startTime = 0, z = 0, geometry = Mesh\<rparr> (- 500)))) = Some 300 \<and>
   vx (position (geometry (moveParticle \<lparr>duration = 1000, amplitude = 25, offsetY = 0,
      arc = 2 * pi, startTime = 0, z = 0, geometry = Mesh\<rparr> (- 500 + 1000)))) = Some 0"
  by (simp add: moveParticle_vx progress_def elapsed_def js_rem_neg500_1000 js_rem_500_1000
      xCoord_def)

text \<open>
  C2, as the code has it: for a particle with \<open>duration > 0\<close> and a time at or after
  its start time, or at least one period before it, \<open>moveParticle\<close> writes the same
  position at \<open>time\<close> and at \<open>time + duration\<close>.
\<close>

theorem moveParticle_periodic:
  assumes "0 < duration p"
    and "0 \<le> time - startTime p \<or> time - startTime p \<le> - duration p"
  shows "moveParticle p (time + duration p) = moveParticle p time"
proof -
  have s: "time + duration p - startTime p = (time - startTime p) + duration p"
    by simp
  have "js_rem ((time - startTime p) + duration p) (duration p) =
        js_rem (time - startTime p) (duration p)"
    using assms js_rem_shift_nonneg [of "duration p" "time - startTime p"]
      js_rem_shift_neg [of "duration p" "time - startTime p"]
    by auto
  then have "elapsed p (time + duration p) = elapsed p time"
    unfolding elapsed_def s .
  then have "progress p (time + duration p) = progress p time"
    by (simp add: progress_def)
  then show ?thesis by (simp add: moveParticle_def)
qed

theorem moveParticle_periodic_witness:
  "(0 :: real) < 1000 \<and> (0 :: real) \<le> 500 - 0 \<and> (- 1500 :: real) - 0 \<le> - 1000 \<and>
   moveParticle \<lparr>duration = 1000, amplitude = 25, offsetY = 0, arc = 2 * pi, startTime = 0,
      z = 0, geometry = Mesh\<rparr> (500 + 1000) =
   moveParticle \<lparr>duration = 1000, amplitude = 25, offsetY = 0, arc = 2 * pi, startTime = 0,
      z = 0, geometry = Mesh\<rparr> 500 \<and>
   moveParticle \<lparr>duration = 1000, amplitude = 25, offsetY = 0, arc = 2 * pi, startTime = 0,
      z = 0, geometry = Mesh\<rparr> (- 1500 + 1000) =
   moveParticle \<lparr>duration = 1000, amplitude = 25, offsetY = 0, arc = 2 * pi, startTime = 0,
      z = 0, geometry = Mesh\<rparr> (- 1500)"
  using moveParticle_periodic [of "\<lparr>duration = 1000, amplitude = 25, offsetY = 0,
      arc = 2 * pi, startTime = 0, z = 0, geometry = Mesh\<rparr>" 500]
    moveParticle_periodic [of "\<lparr>duration = 1000, amplitude = 25, offsetY = 0,
      arc = 2 * pi, startTime = 0, z = 0, geometry = Mesh\<rparr>" "- 1500"]
  by simp

text \<open>
  C3. The claim: at progress 0 the x coordinate is 150 and at progress 1 it is \<open>-150\<close>.
  It fails: the endpoints are the other way round.
\<close>

theorem xCoord_endpoints_counterexample:
  "xCoord 0 \<noteq> 150 \<and> xCoord 1 \<noteq> - 150"
  by (simp add: xCoord_def)

text \<open>
  C3, as the code has it: the x coordinate that \<open>moveParticle\<close> writes is \<open>xCoord\<close> of the
  progress, for every particle; at progress 0 it is \<open>-150\<close> and at progress 1 it is 150.
\<close>

theorem xCoord_endpoints:
  "vx (position (geometry (moveParticle p time))) = map_option xCoord (progress p time) \<and>
   xCoord 0 = - 150 \<and> xCoord 1 = 150"
  by (simp add: moveParticle_vx xCoord_def)

text \<open>
  C4. Two particles with the same duration and start time get the same x coordinate at
  every time, whatever their amplitude, vertical offset, arc, depth and visual handle.
\<close>

theorem moveParticle_x_depends_on_timing_only:
  assumes "duration p = duration q" and "startTime p = startTime q"
  shows "vx (position (geometry (moveParticle p time))) =
         vx (position (geometry (moveParticle q time)))"
  using assms by (simp add: moveParticle_vx progress_def elapsed_def)

theorem moveParticle_x_depends_on_timing_only_witness:
  "(1000 :: real) = 1000 \<and> (0 :: real) = 0 \<and>
   vx (position (geometry (moveParticle \<lparr>duration = 1000, amplitude = 25, offsetY = 0,
      arc = 2 * pi, startTime = 0, z = 0, geometry = Mesh\<rparr> 250))) =
   vx (position (geometry (moveParticle \<lparr>duration = 1000, amplitude = 7, offsetY = - 12,
      arc = 6, startTime = 0, z = 8, geometry = Mesh\<rparr> 250)))"
  using moveParticle_x_depends_on_timing_only [of
      "\<lparr>duration = 1000, amplitude = 25, offsetY = 0, arc = 2 * pi, startTime = 0,
        z = 0, geometry = Mesh\<rparr>"
      "\<lparr>duration = 1000, amplitude = 7, offsetY = - 12, arc = 6, startTime = 0,
        z = 8, geometry = Mesh\<rparr>" 250]
  by simp




text \<open>
  C6. The particle with duration 1000, start time 0, amplitude 25, vertical offset 0 and
  arc \<open>2\<pi>\<close>, at time 0: the progress is 1, the x coordinate is 150 and the shrink factor
  is \<open>1 - (150/90)\<^sup>2 = -16/9\<close>.
\<close>

theorem moveParticle_at_cycle_start:
  "progress \<lparr>duration = 1000, amplitude = 25, offsetY = 0, arc = 2 * pi, startTime = 0,
      z = d, geometry = g\<rparr> 0 = Some 1 \<and>
   vx (position (geometry (moveParticle \<lparr>duration = 1000, amplitude = 25, offsetY = 0,
      arc = 2 * pi, startTime = 0, z = d, geometry = g\<rparr> 0))) = Some 150 \<and>
   xCoord 1 = 150 \<and>
   shrinkFactor (xCoord 1) = 1 - (150 / 90) ^ 2 \<and> shrinkFactor (xCoord 1) = - 16 / 9"
  by (simp add: moveParticle_vx progress_def elapsed_def js_rem_0_1000 xCoord_def
      shrinkFactor_def maxDistance_def power2_eq_square)

text \<open>
  C7. The same particle at time 500: the progress is 1/2, the x coordinate is 0, the
  shrink factor is 1, and the y coordinate is \<open>- sin \<pi> * 25\<close>, which is 0.
\<close>

theorem moveParticle_at_half_cycle:
  "progress \<lparr>duration = 1000, amplitude = 25, offsetY = 0, arc = 2 * pi, startTime = 0,
      z = d, geometry = g\<rparr> 500 = Some (1 / 2) \<and>
   vx (position (geometry (moveParticle \<lparr>duration = 1000, amplitude = 25, offsetY = 0,
      arc = 2 * pi, startTime = 0, z = d, geometry = g\<rparr> 500))) = Some 0 \<and>
   xCoord (1 / 2) = 0 \<and> shrinkFactor (xCoord (1 / 2)) = 1 \<and>
   vy (position (geometry (moveParticle \<lparr>duration = 1000, amplitude = 25, offsetY = 0,
      arc = 2 * pi, startTime = 0, z = d, geometry = g\<rparr> 500))) = Some (- sin pi * 25) \<and>
   - sin pi * 25 = (0 :: real)"
  by (simp add: moveParticle_vx moveParticle_vy progress_def elapsed_def js_rem_500_1000
      xCoord_def yCoord_def shrinkFactor_def maxDistance_def)

text \<open>
  C8. The claim: every particle that \<open>createParticle\<close> returns has \<open>duration > 0\<close>,
  whatever the random source yields. It fails: a deviate of \<open>-10\<close> gives duration 0,
  and a smaller one a negative duration.
\<close>

theorem createParticle_duration_counterexample:
  "duration (createParticle \<lparr>nScale = 0, nDuration = - 10, nAmplitude = 0, nOffsetY = 0,
      nArc = 0, nZ = 0, u = 0, now = 0\<rparr>) = 0 \<and>
   duration (createParticle \<lparr>nScale = 0, nDuration = - 11, nAmplitude = 0, nOffsetY = 0,
      nArc = 0, nZ = 0, u = 0, now = 0\<rparr>) = - 2000"
  by (simp add: createParticle_def randomNormal_def SPEED_def Let_def)

text \<open>
  C8, as the code has it: the duration is \<open>SPEED + SPEED / 10 * n\<close> for the standard
  normal deviate \<open>n\<close> drawn, with no clamp; it is positive exactly when \<open>n > -10\<close>.
\<close>

theorem createParticle_duration_positive_iff:
  "duration (createParticle d) = SPEED + SPEED / 10 * nDuration d \<and>
   (0 < duration (createParticle d)) = (- 10 < nDuration d)"
proof -
  have v: "duration (createParticle d) = 2000 * nDuration d + 20000"
    by (simp add: createParticle_def randomNormal_def SPEED_def Let_def)
  have "(0 < 2000 * nDuration d + 20000) = (- 10 < nDuration d)" by linarith
  with v show ?thesis by (simp add: SPEED_def)
qed

text \<open>
  C9. \<open>moveParticle\<close> changes nothing of the particle but the position of its visual
  handle: the six parameters are as before, the particle differs from the old one in
  \<open>geometry\<close> only, and the handle differs from the old one in \<open>position\<close> only, which
  holds the computed x and y and the particle's own z.
\<close>

theorem moveParticle_frame:
  "duration (moveParticle p time) = duration p \<and>
   amplitude (moveParticle p time) = amplitude p \<and>
   offsetY (moveParticle p time) = offsetY p \<and>
   arc (moveParticle p time) = arc p \<and>
   startTime (moveParticle p time) = startTime p \<and>
   z (moveParticle p time) = z p \<and>
   scale (geometry (moveParticle p time)) = scale (geometry p) \<and>
   moveParticle p time = p\<lparr>geometry := geometry (moveParticle p time)\<rparr> \<and>
   geometry (moveParticle p time) =
     (geometry p)\<lparr>position := position (geometry (moveParticle p time))\<rparr> \<and>
   position (geometry (moveParticle p time)) =
     (position (geometry p))\<lparr>vx := map_option xCoord (progress p time),
        vy := map_option (yCoord p) (progress p time), vz := Some (z p)\<rparr>"
  by (simp add: moveParticle_def vset_def Let_def)

text \<open>
  C10. The claim: a particle made by \<open>createParticle\<close> starts no later than the time of
  its creation, so at every later time \<open>t\<close> the difference \<open>t - startTime\<close> is not
  negative and the remainder computed by \<open>moveParticle\<close> is not negative either. The
  last part fails for a particle whose sampled duration is 0: the remainder by zero is
  \<open>NaN\<close>, which is not a number at all.
\<close>

theorem createParticle_remainder_counterexample:
  "duration (createParticle \<lparr>nScale = 0, nDuration = - 10, nAmplitude = 0, nOffsetY = 0,
      nArc = 0, nZ = 0, u = 1 / 4, now = 10000\<rparr>) = 0 \<and>
   startTime (createParticle \<lparr>nScale = 0, nDuration = - 10, nAmplitude = 0, nOffsetY = 0,
      nArc = 0, nZ = 0, u = 1 / 4, now = 10000\<rparr>) = 5000 \<and>
   elapsed (createParticle \<lparr>nScale = 0, nDuration = - 10, nAmplitude = 0, nOffsetY = 0,
      nArc = 0, nZ = 0, u = 1 / 4, now = 10000\<rparr>) 12000 = None"
  by (simp add: elapsed_def js_rem_def createParticle_def randomNormal_def rand_def SPEED_def
      Let_def)

text \<open>
  C10, as the code has it: when \<open>Math.random()\<close> yields a number that is not negative,
  the particle starts no later than the time of its creation; at every later time \<open>t\<close>
  the difference \<open>t - startTime\<close> is not negative, and the remainder is a number that is
  not negative provided the duration of the particle is not 0.
\<close>

theorem createParticle_startTime_le_now:
  assumes "0 \<le> u d"
  shows "startTime (createParticle d) \<le> now d \<and>
         (\<forall>t. now d \<le> t \<longrightarrow>
            0 \<le> t - startTime (createParticle d) \<and>
            (duration (createParticle d) \<noteq> 0 \<longrightarrow>
               (\<exists>r. elapsed (createParticle d) t = Some r \<and> 0 \<le> r)))"
proof -
  have st: "startTime (createParticle d) = now d - u d * SPEED"
    by (simp add: createParticle_def rand_def Let_def)
  have "0 \<le> u d * SPEED" using assms by (simp add: SPEED_def)
  then have le: "startTime (createParticle d) \<le> now d" using st by simp
  have rem: "\<exists>r. elapsed (createParticle d) t = Some r \<and> 0 \<le> r"
    if "now d \<le> t" and "duration (createParticle d) \<noteq> 0" for t
  proof -
    have n: "0 \<le> t - startTime (createParticle d)" using le that(1) by simp
    show ?thesis
    proof (cases "0 < duration (createParticle d)")
      case True
      from js_rem_nonneg [OF True n] show ?thesis unfolding elapsed_def by blast
    next
      case False
      then have "duration (createParticle d) < 0" using that(2) by simp
      from js_rem_nonneg_negdiv [OF this n] show ?thesis unfolding elapsed_def .
    qed
  qed
  show ?thesis using le rem by auto
qed

theorem createParticle_startTime_le_now_witness:
  "(0 :: real) \<le> 1 / 4 \<and>
   startTime (createParticle \<lparr>nScale = 0, nDuration = 0, nAmplitude = 0, nOffsetY = 0,
      nArc = 0, nZ = 0, u = 1 / 4, now = 10000\<rparr>) \<le> 10000 \<and>
   (10000 :: real) \<le> 12000 \<and>
   0 \<le> 12000 - startTime (createParticle \<lparr>nScale = 0, nDuration = 0, nAmplitude = 0,
      nOffsetY = 0, nArc = 0, nZ = 0, u = 1 / 4, now = 10000\<rparr>) \<and>
   duration (createParticle \<lparr>nScale = 0, nDuration = 0, nAmplitude = 0, nOffsetY = 0,
      nArc = 0, nZ = 0, u = 1 / 4, now = 10000\<rparr>) \<noteq> 0 \<and>
   (\<exists>r. elapsed (createParticle \<lparr>nScale = 0, nDuration = 0, nAmplitude = 0, nOffsetY = 0,
      nArc = 0, nZ = 0, u = 1 / 4, now = 10000\<rparr>) 12000 = Some r \<and> 0 \<le> r)"
proof -
  have dur: "duration (createParticle \<lparr>nScale = 0, nDuration = 0, nAmplitude = 0,
      nOffsetY = 0, nArc = 0, nZ = 0, u = 1 / 4, now = 10000\<rparr>) \<noteq> 0"
    by (simp add: createParticle_def randomNormal_def SPEED_def Let_def)
  show ?thesis
    using dur createParticle_startTime_le_now [of "\<lparr>nScale = 0, nDuration = 0, nAmplitude = 0,
      nOffsetY = 0, nArc = 0, nZ = 0, u = 1 / 4, now = 10000\<rparr>"]
    by simp
qed

end
